theory Spec2Isabelle
  imports Main "HOL-Library.Sublist"
begin

section \<open>The logs processor of cognitum: data model\<close>

text \<open>
  The module \<open>LogsProcessor\<close> listens to the guild events of the chat client, correlates
  member removals and bans with the audit log, and sends one rendered line per event to the
  log channel the guild has configured.  Every awaited call of the source (member fetch,
  audit-log fetch, \<open>GuildModel.findOrCreate\<close>) may reject; a rejected promise and a thrown
  \<open>TypeError\<close> are values of \<open>error\<close>, and an async method returns \<open>error + 'a\<close>.
\<close>

datatype error = TypeError | Rejected

text \<open>The objects of the client library, with the properties the module reads.\<close>

record user =
  user_id :: string
  user_tag :: string
  user_username :: string

record entry =
  entry_action :: string
  entry_targetType :: string
  entry_target_id :: string
  entry_executor :: user
  entry_reason :: "string option"

record channel =
  channel_id :: string
  channel_type :: string

text \<open>
  A guild: \<open>me_hasPermission\<close> is \<open>guild.me.hasPermission\<close>, \<open>fetchAuditLogs\<close> is the awaited
  query with its optional \<open>type\<close> filter (its result is \<open>logs.entries\<close>, in the order the
  platform returned them), \<open>channels_cache\<close> is \<open>guild.channels.cache.get\<close>.
\<close>

record guild =
  guild_id :: string
  me_hasPermission :: "string \<Rightarrow> bool"
  fetchAuditLogs :: "string option \<Rightarrow> error + entry list"
  channels_cache :: "string \<Rightarrow> channel option"

record member =
  member_id :: string
  member_partial :: bool
  member_nickname :: "string option"
  member_user :: user
  member_guild :: guild

text \<open>
  The arguments of an emitted log event (\<open>...args\<close>), in the shapes the module emits:
  \<open>(member)\<close>, \<open>(member, entry)\<close>, \<open>(previousMember, currentMember)\<close>, \<open>(guild, user)\<close> and
  \<open>(guild, user, entry)\<close>.  An emission is the event name with its arguments.
\<close>

datatype args =
    OfMember member
  | OfMemberEntry member entry
  | OfMembers member member
  | OfGuildUser guild user
  | OfGuildUserEntry guild user entry

type_synonym emission = "string \<times> args"

text \<open>The raw events of the client that \<open>#proxyDiscordEvents\<close> subscribes to.\<close>

datatype discord_event =
    GuildMemberAdd member
  | GuildMemberRemove member
  | GuildMemberUpdate member member
  | GuildBanAdd guild user
  | GuildBanRemove guild user

text \<open>
  A column value of the guild's database row.  \<open>guildInstance[key]\<close> is a lookup in a map
  from column names; \<open>None\<close> is JavaScript's \<open>undefined\<close>.
\<close>

datatype jsval = JNull | JNum int | JStr string

type_synonym guildInstance = "string \<Rightarrow> jsval option"

fun truthy :: "jsval option \<Rightarrow> bool" where
  "truthy None = False"
| "truthy (Some JNull) = False"
| "truthy (Some (JNum n)) = (n \<noteq> 0)"
| "truthy (Some (JStr s)) = (s \<noteq> [])"

text \<open>The decimal numeral of a natural number, for the string form of a number.\<close>

fun dec :: "nat \<Rightarrow> string" where
  "dec n = (if n < 10 then [''0123456789'' ! n] else dec (n div 10) @ [''0123456789'' ! (n mod 10)])"

text \<open>\<open>value.toString()\<close>; on \<open>undefined\<close> and \<open>null\<close> the property access throws.\<close>

fun toString :: "jsval option \<Rightarrow> error + string" where
  "toString None = Inl TypeError"
| "toString (Some JNull) = Inl TypeError"
| "toString (Some (JNum n)) = Inr (if n < 0 then CHR ''-'' # dec (nat (- n)) else dec (nat n))"
| "toString (Some (JStr s)) = Inr s"

section \<open>Proxying client events to log events\<close>

definition EVENT_NAME_AUDIT_POSTFIX :: string where
  "EVENT_NAME_AUDIT_POSTFIX = ''Audit''"

text \<open>
  Lines 57-58 of \<open>#resolveMemberRemove\<close>: \<open>if (member.partial) await member.fetch()\<close>.
  \<open>fetch\<close> is \<open>member.fetch()\<close>: it rejects, or completes the partial member (the value is
  the member object after completion).
\<close>

definition completeMember :: "(member \<Rightarrow> error + member) \<Rightarrow> member \<Rightarrow> error + member" where
  "completeMember fetch member0 = (if member_partial member0 then fetch member0 else Inr member0)"

text \<open>
  \<open>#resolveMemberRemove\<close> (lines 56-70).  The result is the rejection, no emission
  (\<open>None\<close>), or the emission.
\<close>

definition resolveMemberRemove ::
  "(member \<Rightarrow> error + member) \<Rightarrow> member \<Rightarrow> error + emission option" where
  "resolveMemberRemove fetch member0 =
     (case completeMember fetch member0 of
        Inl err \<Rightarrow> Inl err
      | Inr member \<Rightarrow>
          if \<not> me_hasPermission (member_guild member) ''VIEW_AUDIT_LOG''
          then Inr (Some (''left'', OfMember member))
          else (case fetchAuditLogs (member_guild member) None of
                  Inl err \<Rightarrow> Inl err
                | Inr logs \<Rightarrow>
                    (case find (\<lambda>entry.
                              entry_action entry \<in> set [''MEMBER_KICK'', ''MEMBER_BAN_ADD'', ''MEMBER_BAN_REMOVE'']
                              \<and> (entry_targetType entry = ''USER'' \<and> entry_target_id entry = member_id member))
                           logs of
                       None \<Rightarrow> Inr (Some (''left'', OfMember member))
                     | Some entry \<Rightarrow>
                         if entry_action entry = ''MEMBER_KICK''
                         then Inr (Some (''kick'', OfMemberEntry member entry))
                         else Inr None)))"

text \<open>\<open>#resolveBanManagementEvent\<close> (lines 79-89).\<close>

definition resolveBanManagementEvent ::
  "string \<Rightarrow> guild \<Rightarrow> user \<Rightarrow> error + emission option" where
  "resolveBanManagementEvent eventName guild user =
     (if \<not> me_hasPermission guild ''VIEW_AUDIT_LOG''
      then Inr (Some (eventName, OfGuildUser guild user))
      else (case fetchAuditLogs guild
                   (Some (''MEMBER_BAN_'' @ (if eventName = ''ban'' then ''ADD'' else ''REMOVE''))) of
              Inl err \<Rightarrow> Inl err
            | Inr logs \<Rightarrow>
                (case find (\<lambda>entry. entry_targetType entry = ''USER''
                                  \<and> entry_target_id entry = user_id user) logs of
                   None \<Rightarrow> Inr (Some (eventName, OfGuildUser guild user))
                 | Some entry \<Rightarrow>
                     Inr (Some (eventName @ EVENT_NAME_AUDIT_POSTFIX,
                                OfGuildUserEntry guild user entry)))))"

text \<open>\<open>#resolveMemberUpdate\<close> (lines 97-100).\<close>

definition resolveMemberUpdate :: "member \<Rightarrow> member \<Rightarrow> emission option" where
  "resolveMemberUpdate previousMember currentMember =
     (if member_nickname previousMember \<noteq> member_nickname currentMember
      then Some (''rename'', OfMembers previousMember currentMember)
      else None)"

text \<open>\<open>#proxyDiscordEvents\<close> (lines 43-49): what each client event emits.\<close>

fun proxyDiscordEvents ::
  "(member \<Rightarrow> error + member) \<Rightarrow> discord_event \<Rightarrow> error + emission option" where
  "proxyDiscordEvents fetch (GuildMemberAdd member) = Inr (Some (''join'', OfMember member))"
| "proxyDiscordEvents fetch (GuildMemberRemove member) = resolveMemberRemove fetch member"
| "proxyDiscordEvents fetch (GuildMemberUpdate previousMember currentMember) =
     Inr (resolveMemberUpdate previousMember currentMember)"
| "proxyDiscordEvents fetch (GuildBanAdd guild user) = resolveBanManagementEvent ''ban'' guild user"
| "proxyDiscordEvents fetch (GuildBanRemove guild user) = resolveBanManagementEvent ''unban'' guild user"

section \<open>The dispatch tables\<close>

text \<open>
  Reading the positional arguments of a table entry.  The entries are JavaScript functions
  of untyped arguments; applied to arguments of a shape they were not written for (a
  position that is missing, or an object of another class), they are modelled as the fault
  \<open>TypeError\<close>.  Surplus arguments are ignored, as in the source.
\<close>

fun arg1_member :: "args \<Rightarrow> error + member" where
  "arg1_member (OfMember m) = Inr m"
| "arg1_member (OfMemberEntry m e) = Inr m"
| "arg1_member (OfMembers m n) = Inr m"
| "arg1_member _ = Inl TypeError"

fun arg2_member :: "args \<Rightarrow> error + member" where
  "arg2_member (OfMembers m n) = Inr n"
| "arg2_member _ = Inl TypeError"

fun arg2_entry :: "args \<Rightarrow> error + entry" where
  "arg2_entry (OfMemberEntry m e) = Inr e"
| "arg2_entry _ = Inl TypeError"

fun arg1_guild :: "args \<Rightarrow> error + guild" where
  "arg1_guild (OfGuildUser g u) = Inr g"
| "arg1_guild (OfGuildUserEntry g u e) = Inr g"
| "arg1_guild _ = Inl TypeError"

fun arg2_user :: "args \<Rightarrow> error + user" where
  "arg2_user (OfGuildUser g u) = Inr u"
| "arg2_user (OfGuildUserEntry g u e) = Inr u"
| "arg2_user _ = Inl TypeError"

fun arg3_entry :: "args \<Rightarrow> error + entry" where
  "arg3_entry (OfGuildUserEntry g u e) = Inr e"
| "arg3_entry _ = Inl TypeError"

definition andThen :: "error + 'a \<Rightarrow> ('a \<Rightarrow> error + 'b) \<Rightarrow> error + 'b" where
  "andThen r f = (case r of Inl err \<Rightarrow> Inl err | Inr x \<Rightarrow> f x)"

text \<open>\<open>entry.reason?.length\<close> as a condition: false for \<open>null\<close> and for the empty string.\<close>

fun reason_length :: "string option \<Rightarrow> bool" where
  "reason_length None = False"
| "reason_length (Some r) = (r \<noteq> [])"

text \<open>\<open>prev.nickname ?? prev.user.username\<close>.\<close>

definition nickname_or_username :: "member \<Rightarrow> string" where
  "nickname_or_username m =
     (case member_nickname m of None \<Rightarrow> user_username (member_user m) | Some n \<Rightarrow> n)"

text \<open>
  \<open>#eventMessageRenderer\<close> (lines 163-227), an object literal: an association list in the
  order of its keys.  \<open>escape\<close> is \<open>escapeMarkdown\<close> of \<open>Utils\<close>, which is not part of the
  sources at hand and is a parameter here.  The arrow of the rename line is U+2192, written
  as its three UTF-8 bytes.
\<close>

definition eventMessageRenderer ::
  "(string \<Rightarrow> string) \<Rightarrow> (string \<times> (args \<Rightarrow> error + string)) list" where
  "eventMessageRenderer escape =
   [(''join'', \<lambda>a. andThen (arg1_member a) (\<lambda>member.
       Inr ('':inbox_tray: [JOIN] | '' @ escape (''ID: '' @ member_id member) @ '' | ''
            @ escape (user_tag (member_user member))))),
    (''left'', \<lambda>a. andThen (arg1_member a) (\<lambda>member.
       Inr ('':outbox_tray: [LEAVE] | '' @ escape (''ID: '' @ member_id member) @ '' | ''
            @ escape (user_tag (member_user member))))),
    (''rename'', \<lambda>a. andThen (arg1_member a) (\<lambda>prev. andThen (arg2_member a) (\<lambda>next.
       Inr ('':abc: [RENAME] | '' @ escape (''ID: '' @ member_id prev) @ '' | ''
            @ escape (nickname_or_username prev)
            @ '' '' @ [CHR 0xE2, CHR 0x86, CHR 0x92] @ '' ''
            @ escape (nickname_or_username next))))),
    (''ban'', \<lambda>a. andThen (arg2_user a) (\<lambda>user.
       Inr ('':hammer: [BAN] | '' @ escape (''ID: '' @ user_id user)
            @ '' | '' @ escape (user_tag user)))),
    (''banAudit'', \<lambda>a. andThen (arg2_user a) (\<lambda>user. andThen (arg3_entry a) (\<lambda>entry.
       Inr ('':hammer: [BAN] by '' @ escape (user_tag (entry_executor entry)) @ '' with''
            @ (if reason_length (entry_reason entry)
               then '' reason '' @ escape (case entry_reason entry of Some r \<Rightarrow> r | None \<Rightarrow> [])
               else '' no reason'')
            @ '' | '' @ escape (''ID: '' @ user_id user) @ '' | '' @ escape (user_tag user))))),
    (''unban'', \<lambda>a. andThen (arg2_user a) (\<lambda>user.
       Inr ('':peace: [UNBAN] | '' @ escape (''ID: '' @ user_id user)
            @ '' | '' @ escape (user_tag user)))),
    (''unbanAudit'', \<lambda>a. andThen (arg2_user a) (\<lambda>user. andThen (arg3_entry a) (\<lambda>entry.
       Inr ('':peace: [UNBAN] by '' @ escape (user_tag (entry_executor entry))
            @ '' | '' @ escape (''ID: '' @ user_id user) @ '' | '' @ escape (user_tag user))))),
    (''kick'', \<lambda>a. andThen (arg1_member a) (\<lambda>member. andThen (arg2_entry a) (\<lambda>entry.
       Inr ('':boot: [KICK] by '' @ escape (user_tag (entry_executor entry)) @ '' with''
            @ (if reason_length (entry_reason entry)
               then '' reason '' @ escape (case entry_reason entry of Some r \<Rightarrow> r | None \<Rightarrow> [])
               else '' no reason'')
            @ '' | '' @ escape (''ID: '' @ member_id member) @ '' ''
            @ ''| '' @ escape (user_tag (member_user member))))))]"

text \<open>\<open>#guildResolver\<close> (lines 233-282).\<close>

definition guildResolver :: "(string \<times> (args \<Rightarrow> error + guild)) list" where
  "guildResolver =
   [(''join'', \<lambda>a. andThen (arg1_member a) (\<lambda>member. Inr (member_guild member))),
    (''left'', \<lambda>a. andThen (arg1_member a) (\<lambda>member. Inr (member_guild member))),
    (''rename'', \<lambda>a. andThen (arg1_member a) (\<lambda>member. Inr (member_guild member))),
    (''ban'', \<lambda>a. arg1_guild a),
    (''banAudit'', \<lambda>a. arg1_guild a),
    (''unban'', \<lambda>a. arg1_guild a),
    (''unbanAudit'', \<lambda>a. arg1_guild a),
    (''kick'', \<lambda>a. andThen (arg1_member a) (\<lambda>member. Inr (member_guild member)))]"

section \<open>Resolving the channel and handling an event\<close>

text \<open>
  The settings key of an event name (lines 118-121 of \<open>#resolveChannel\<close>): the postfix is
  sliced off when the name ends with it, then \<open>unban\<close> becomes \<open>ban\<close>.
\<close>

definition settingsKey :: "string \<Rightarrow> string" where
  "settingsKey eventName =
     (let eventName1 =
            (if suffix EVENT_NAME_AUDIT_POSTFIX eventName
             then take (length eventName - length EVENT_NAME_AUDIT_POSTFIX) eventName
             else eventName)
      in if eventName1 = ''unban'' then ''ban'' else eventName1)"

definition channelType :: "string \<Rightarrow> string" where
  "channelType eventName =
     (if eventName \<in> set [''msgdelete'', ''msgimage'', ''msgupdate''] then ''private'' else ''public'')"

text \<open>
  Line 112, \<open>#guildResolver[eventName]?.(...args)\<close>: \<open>None\<close> is the \<open>undefined\<close> of a name
  with no resolver.
\<close>

definition resolveGuild :: "string \<Rightarrow> args \<Rightarrow> error + guild option" where
  "resolveGuild eventName a =
     (case map_of guildResolver eventName of
        None \<Rightarrow> Inr None
      | Some resolver \<Rightarrow> andThen (resolver a) (\<lambda>guild. Inr (Some guild)))"

text \<open>
  \<open>#resolveChannel\<close> (lines 110-130).  \<open>findOrCreate\<close> is \<open>GuildModel.findOrCreate\<close> by guild
  id, giving the row.  On an \<open>undefined\<close> guild \<open>guild.id\<close> throws.  The result \<open>None\<close> is
  \<open>null\<close> or the \<open>undefined\<close> of a cache miss.
\<close>

definition resolveChannel ::
  "(string \<Rightarrow> error + guildInstance) \<Rightarrow> string \<Rightarrow> args \<Rightarrow> error + channel option" where
  "resolveChannel findOrCreate eventName a =
     andThen (resolveGuild eventName a) (\<lambda>resolved.
       case resolved of
         None \<Rightarrow> Inl TypeError
       | Some guild \<Rightarrow>
           andThen (findOrCreate (guild_id guild)) (\<lambda>guildInstance.
             let eventName1 = settingsKey eventName;
                 channelType1 = channelType eventName1
             in if \<not> truthy (guildInstance ''logs_enabled'')
                   \<or> \<not> truthy (guildInstance (''logs_'' @ eventName1 @ ''_event''))
                   \<or> \<not> truthy (guildInstance (''logs_'' @ channelType1 @ ''_channel''))
                then Inr None
                else andThen (toString (guildInstance (''logs_'' @ channelType1 @ ''_channel'')))
                       (\<lambda>key. Inr (channels_cache guild key))))"

text \<open>
  \<open>#handleLogEvents\<close> (lines 135-141): one subscription per own key of the renderer table.
\<close>

definition handleLogEvents :: "(string \<Rightarrow> string) \<Rightarrow> string list" where
  "handleLogEvents escape = map fst (eventMessageRenderer escape)"

text \<open>
  Line 153, \<open>#eventMessageRenderer[eventName]?.(...args)\<close>: \<open>None\<close> is the \<open>undefined\<close> of a
  name with no renderer.
\<close>

definition renderLogMessage :: "(string \<Rightarrow> string) \<Rightarrow> string \<Rightarrow> args \<Rightarrow> error + string option" where
  "renderLogMessage escape eventName a =
     (case map_of (eventMessageRenderer escape) eventName of
        None \<Rightarrow> Inr None
      | Some renderer \<Rightarrow> andThen (renderer a) (\<lambda>line. Inr (Some line)))"

text \<open>
  \<open>#handleEvent\<close> (lines 149-157).  The result is the rejection, \<open>None\<close> when nothing is
  sent, or the channel with the message handed to \<open>channel.send\<close>.  The outcome of the send
  itself is not inspected by the source.
\<close>

definition handleEvent ::
  "(string \<Rightarrow> string) \<Rightarrow> (string \<Rightarrow> error + guildInstance) \<Rightarrow> string \<Rightarrow> args
     \<Rightarrow> error + (channel \<times> string option) option" where
  "handleEvent escape findOrCreate eventName a =
     andThen (resolveChannel findOrCreate eventName a) (\<lambda>channel.
       case channel of
         None \<Rightarrow> Inr None
       | Some ch \<Rightarrow>
           andThen (renderLogMessage escape eventName a) (\<lambda>logMessage.
             if channel_type ch \<noteq> ''text'' then Inr None
             else Inr (Some (ch, logMessage))))"

text \<open>
  The emitter: an emission reaches \<open>#handleEvent\<close> when a listener is subscribed to its
  name, and is dropped (\<open>None\<close>) otherwise.
\<close>

definition emit ::
  "(string \<Rightarrow> string) \<Rightarrow> (string \<Rightarrow> error + guildInstance) \<Rightarrow> emission
     \<Rightarrow> (error + (channel \<times> string option) option) option" where
  "emit escape findOrCreate em =
     (if fst em \<in> set (handleLogEvents escape)
      then Some (handleEvent escape findOrCreate (fst em) (snd em))
      else None)"

section \<open>Markdown escaping\<close>

text \<open>The backslash, the escape character of markdown.\<close>

definition backslash :: char where
  "backslash = CHR 0x5C"

text \<open>
  Modelled from the spec: the "markdown-control characters" that \<open>escapeMarkdown\<close> of
  \<open>Utils\<close> escapes; \<open>Utils\<close> is not among the sources at hand.  They are taken to be the
  backslash, \<open>*\<close>, \<open>_\<close>, \<open>~\<close>, the backquote and \<open>|\<close>.
\<close>

definition markdown_control :: "char \<Rightarrow> bool" where
  "markdown_control c = (c \<in> set [backslash, CHR ''*'', CHR ''_'', CHR ''~'', CHR 0x60, CHR ''|''])"

text \<open>
  Modelled from the spec: \<open>escapeMarkdown\<close> of \<open>Utils\<close>, which the renderers import as
  \<open>escape\<close> and which is not among the sources at hand.  The spec says that text is
  "escaped against markdown-control characters" so that a name such as \<open>*bold*\<close> "renders
  literally, not as emphasis": every markdown control character is preceded by a
  backslash, and every other character is kept.
\<close>

definition escapeMarkdown :: "string \<Rightarrow> string" where
  "escapeMarkdown text = concat (map (\<lambda>c. if markdown_control c then [backslash, c] else [c]) text)"

text \<open>
  A raw control character: one that is not the second character of a backslash pair.  A
  backslash itself must start a pair.
\<close>

fun raw_control :: "string \<Rightarrow> bool" where
  "raw_control [] = False"
| "raw_control [c] = markdown_control c"
| "raw_control (c # d # cs) =
     (if c = backslash then raw_control cs else markdown_control c \<or> raw_control (d # cs))"

text \<open>Reading an escaped text back: each backslash pair stands for its second character.\<close>

fun unescapeMarkdown :: "string \<Rightarrow> string" where
  "unescapeMarkdown [] = []"
| "unescapeMarkdown [c] = [c]"
| "unescapeMarkdown (c # d # cs) =
     (if c = backslash then d # unescapeMarkdown cs else c # unescapeMarkdown (d # cs))"

text \<open>
  For stating what the renderers escape: the arguments of an event with \<open>f\<close> applied to
  every text the renderers print (ids, tags, usernames, nicknames, reasons).
\<close>

definition user_texts :: "(string \<Rightarrow> string) \<Rightarrow> user \<Rightarrow> user" where
  "user_texts f u =
     u\<lparr>user_id := f (user_id u), user_tag := f (user_tag u), user_username := f (user_username u)\<rparr>"

definition entry_texts :: "(string \<Rightarrow> string) \<Rightarrow> entry \<Rightarrow> entry" where
  "entry_texts f e =
     e\<lparr>entry_executor := user_texts f (entry_executor e), entry_reason := map_option f (entry_reason e)\<rparr>"

definition member_texts :: "(string \<Rightarrow> string) \<Rightarrow> member \<Rightarrow> member" where
  "member_texts f m =
     m\<lparr>member_id := f (member_id m), member_nickname := map_option f (member_nickname m),
       member_user := user_texts f (member_user m)\<rparr>"

fun args_texts :: "(string \<Rightarrow> string) \<Rightarrow> args \<Rightarrow> args" where
  "args_texts f (OfMember m) = OfMember (member_texts f m)"
| "args_texts f (OfMemberEntry m e) = OfMemberEntry (member_texts f m) (entry_texts f e)"
| "args_texts f (OfMembers m n) = OfMembers (member_texts f m) (member_texts f n)"
| "args_texts f (OfGuildUser g u) = OfGuildUser g (user_texts f u)"
| "args_texts f (OfGuildUserEntry g u e) = OfGuildUserEntry g (user_texts f u) (entry_texts f e)"

section \<open>Example objects\<close>

text \<open>
  A guild with one text channel \<open>100\<close> and one voice channel \<open>200\<close>, a moderator and a
  member, audit-log entries for that member, and a database row with logging enabled, the
  kick flag and the public channel as given (scenarios A, B and D of the specification).
\<close>

definition ex_mod :: user where
  "ex_mod = \<lparr>user_id = ''7'', user_tag = ''Mod#0001'', user_username = ''Mod''\<rparr>"

definition ex_user :: user where
  "ex_user = \<lparr>user_id = ''42'', user_tag = ''Bob#0002'', user_username = ''Bob''\<rparr>"

definition ex_bold :: user where
  "ex_bold = \<lparr>user_id = ''43'', user_tag = ''*bold*#0003'', user_username = ''*bold*''\<rparr>"

definition ex_entry :: "string \<Rightarrow> string \<Rightarrow> string option \<Rightarrow> entry" where
  "ex_entry action target reason =
     \<lparr>entry_action = action, entry_targetType = ''USER'', entry_target_id = target,
      entry_executor = ex_mod, entry_reason = reason\<rparr>"

definition ex_text_channel :: channel where
  "ex_text_channel = \<lparr>channel_id = ''100'', channel_type = ''text''\<rparr>"

definition ex_voice_channel :: channel where
  "ex_voice_channel = \<lparr>channel_id = ''200'', channel_type = ''voice''\<rparr>"

definition ex_logs :: "entry list \<Rightarrow> string option \<Rightarrow> error + entry list" where
  "ex_logs entries type =
     Inr (case type of None \<Rightarrow> entries | Some t \<Rightarrow> filter (\<lambda>e. entry_action e = t) entries)"

definition ex_guild :: "bool \<Rightarrow> (string option \<Rightarrow> error + entry list) \<Rightarrow> guild" where
  "ex_guild permitted logs =
     \<lparr>guild_id = ''1'', me_hasPermission = (\<lambda>p. permitted \<and> p = ''VIEW_AUDIT_LOG''),
      fetchAuditLogs = logs,
      channels_cache = map_of [(''100'', ex_text_channel), (''200'', ex_voice_channel)]\<rparr>"

definition ex_member :: "bool \<Rightarrow> guild \<Rightarrow> member" where
  "ex_member partial g =
     \<lparr>member_id = ''42'', member_partial = partial, member_nickname = None,
      member_user = ex_user, member_guild = g\<rparr>"

definition ex_row :: "int \<Rightarrow> string \<Rightarrow> guildInstance" where
  "ex_row kick_flag public_channel =
     map_of [(''logs_enabled'', JNum 1), (''logs_join_event'', JNum 1), (''logs_left_event'', JNum 1),
             (''logs_rename_event'', JNum 1), (''logs_kick_event'', JNum kick_flag),
             (''logs_ban_event'', JNum 1),
             (''logs_public_channel'', JStr public_channel), (''logs_private_channel'', JNull)]"

definition ex_findOrCreate :: "guildInstance \<Rightarrow> string \<Rightarrow> error + guildInstance" where
  "ex_findOrCreate row guild = Inr row"

definition fetch_rejects :: "member \<Rightarrow> error + member" where
  "fetch_rejects m = Inl Rejected"

definition fetch_completes :: "member \<Rightarrow> error + member" where
  "fetch_completes m = Inr (m\<lparr>member_partial := False\<rparr>)"

definition logs_reject :: "string option \<Rightarrow> error + entry list" where
  "logs_reject type = Inl Rejected"

section \<open>Auxiliary facts\<close>

lemma find_first:
  "\<forall>x \<in> set xs. \<not> P x \<Longrightarrow> P y \<Longrightarrow> find P (xs @ y # ys) = Some y"
  by (induction xs) auto

lemma handleLogEvents_names:
  "handleLogEvents escape =
     [''join'', ''left'', ''rename'', ''ban'', ''banAudit'', ''unban'', ''unbanAudit'', ''kick'']"
  by (simp add: handleLogEvents_def eventMessageRenderer_def)

lemma kick_line:
  "renderLogMessage escape ''kick'' (OfMemberEntry member entry) =
     Inr (Some ('':boot: [KICK] by '' @ escape (user_tag (entry_executor entry)) @ '' with''
            @ (if reason_length (entry_reason entry)
               then '' reason '' @ escape (case entry_reason entry of Some r \<Rightarrow> r | None \<Rightarrow> [])
               else '' no reason'')
            @ '' | '' @ escape (''ID: '' @ member_id member) @ '' ''
            @ ''| '' @ escape (user_tag (member_user member))))"
  by (simp add: renderLogMessage_def eventMessageRenderer_def andThen_def)

lemma settingsKey_ban_kinds:
  "settingsKey ''ban'' = ''ban'' \<and> settingsKey ''banAudit'' = ''ban''
   \<and> settingsKey ''unban'' = ''ban'' \<and> settingsKey ''unbanAudit'' = ''ban''"
  by (simp add: settingsKey_def EVENT_NAME_AUDIT_POSTFIX_def suffix_def)

lemma settingsKey_idem:
  assumes "\<not> suffix ''AuditAudit'' name"
  shows "settingsKey (settingsKey name) = settingsKey name"
proof (cases "suffix ''Audit'' name")
  case False
  then show ?thesis
    by (auto simp: settingsKey_def EVENT_NAME_AUDIT_POSTFIX_def Let_def suffix_def)
next
  case True
  then obtain p where name: "name = p @ ''Audit''" by (auto simp: suffix_def)
  with assms have "\<not> suffix ''Audit'' p" by (auto simp: suffix_def)
  with name show ?thesis
    by (auto simp: settingsKey_def EVENT_NAME_AUDIT_POSTFIX_def Let_def suffix_def)
qed

lemma removed_shape:
  assumes "resolveMemberRemove fetch member0 = Inr (Some (name, a))"
  shows "(\<exists>m. name = ''left'' \<and> a = OfMember m) \<or> (\<exists>m e. name = ''kick'' \<and> a = OfMemberEntry m e)"
proof (cases "completeMember fetch member0")
  case (Inl err)
  then show ?thesis using assms by (simp add: resolveMemberRemove_def)
next
  case (Inr member)
  show ?thesis
  proof (cases "me_hasPermission (member_guild member) ''VIEW_AUDIT_LOG''")
    case False
    then show ?thesis using assms Inr by (simp add: resolveMemberRemove_def) blast
  next
    case True
    show ?thesis
    proof (cases "fetchAuditLogs (member_guild member) None")
      case (Inl err)
      then show ?thesis using assms \<open>completeMember fetch member0 = Inr member\<close> True
        by (simp add: resolveMemberRemove_def)
    next
      case logs: (Inr logs)
      then show ?thesis using assms \<open>completeMember fetch member0 = Inr member\<close> True
        by (simp add: resolveMemberRemove_def split: option.splits if_splits) blast+
    qed
  qed
qed

lemma kick_needs_permission:
  assumes "resolveMemberRemove fetch member0 = Inr (Some (''kick'', a))"
  shows "\<exists>member. completeMember fetch member0 = Inr member
           \<and> me_hasPermission (member_guild member) ''VIEW_AUDIT_LOG''"
proof (cases "completeMember fetch member0")
  case (Inl err)
  then show ?thesis using assms by (simp add: resolveMemberRemove_def)
next
  case (Inr member)
  then show ?thesis using assms
    by (cases "me_hasPermission (member_guild member) ''VIEW_AUDIT_LOG''")
       (simp_all add: resolveMemberRemove_def)
qed

lemma banned_shape:
  assumes "resolveBanManagementEvent eventName guild user = Inr (Some (name, a))"
  shows "(name = eventName \<and> a = OfGuildUser guild user)
       \<or> (\<exists>e. name = eventName @ ''Audit'' \<and> a = OfGuildUserEntry guild user e)"
proof (cases "me_hasPermission guild ''VIEW_AUDIT_LOG''")
  case False
  then show ?thesis using assms by (simp add: resolveBanManagementEvent_def)
next
  case True
  then show ?thesis using assms
    by (simp add: resolveBanManagementEvent_def EVENT_NAME_AUDIT_POSTFIX_def
             split: sum.splits option.splits) blast+
qed

lemma emitted_shape:
  assumes "proxyDiscordEvents fetch ev = Inr (Some (name, a))"
  shows "(\<exists>m. (name = ''join'' \<or> name = ''left'') \<and> a = OfMember m)
       \<or> (\<exists>m e. name = ''kick'' \<and> a = OfMemberEntry m e)
       \<or> (\<exists>p c. name = ''rename'' \<and> a = OfMembers p c)
       \<or> (\<exists>g u. (name = ''ban'' \<or> name = ''unban'') \<and> a = OfGuildUser g u)
       \<or> (\<exists>g u e. (name = ''banAudit'' \<or> name = ''unbanAudit'') \<and> a = OfGuildUserEntry g u e)"
proof (cases ev)
  case (GuildMemberAdd m)
  then have "name = ''join'' \<and> a = OfMember m" using assms by simp
  then show ?thesis by simp
next
  case (GuildMemberRemove m)
  then have "resolveMemberRemove fetch m = Inr (Some (name, a))" using assms by simp
  from removed_shape [OF this] show ?thesis by (elim disjE exE conjE) simp_all
next
  case (GuildMemberUpdate p c)
  then have "name = ''rename'' \<and> a = OfMembers p c"
    using assms by (simp add: resolveMemberUpdate_def split: if_splits)
  then show ?thesis by simp
next
  case (GuildBanAdd g u)
  then have "resolveBanManagementEvent ''ban'' g u = Inr (Some (name, a))" using assms by simp
  from banned_shape [OF this] show ?thesis by (elim disjE exE conjE) simp_all
next
  case (GuildBanRemove g u)
  then have "resolveBanManagementEvent ''unban'' g u = Inr (Some (name, a))" using assms by simp
  from banned_shape [OF this] show ?thesis by (elim disjE exE conjE) simp_all
qed

lemma emitted_subscribed:
  assumes "proxyDiscordEvents fetch ev = Inr (Some (name, a))"
  shows "name \<in> set (handleLogEvents escape)"
  using emitted_shape [OF assms] unfolding handleLogEvents_names
  by (elim disjE exE conjE) simp_all

lemma emitted_resolves:
  assumes "proxyDiscordEvents fetch ev = Inr (Some (name, a))"
  shows "\<exists>guild line. resolveGuild name a = Inr (Some guild)
           \<and> renderLogMessage escape name a = Inr (Some line)"
  using emitted_shape [OF assms]
  by (elim disjE exE conjE)
     (simp_all add: resolveGuild_def guildResolver_def renderLogMessage_def
        eventMessageRenderer_def andThen_def)

lemma truthy_toString: "truthy v \<Longrightarrow> \<exists>key. toString v = Inr key"
  by (cases v rule: truthy.cases) auto

lemma handleEvent_rejected:
  assumes "resolveGuild name a = Inr (Some guild)"
      and "findOrCreate (guild_id guild) = Inr guildInstance"
      and "\<not> (truthy (guildInstance ''logs_enabled'')
              \<and> truthy (guildInstance (''logs_'' @ settingsKey name @ ''_event''))
              \<and> truthy (guildInstance (''logs_'' @ channelType (settingsKey name) @ ''_channel'')))"
  shows "handleEvent escape findOrCreate name a = Inr None"
  using assms by (auto simp: handleEvent_def resolveChannel_def andThen_def Let_def)

lemma handleEvent_resolved:
  assumes "resolveGuild name a = Inr (Some guild)"
      and "renderLogMessage escape name a = Inr (Some line)"
      and "findOrCreate (guild_id guild) = Inr guildInstance"
      and "truthy (guildInstance ''logs_enabled'')
           \<and> truthy (guildInstance (''logs_'' @ settingsKey name @ ''_event''))
           \<and> truthy (guildInstance (''logs_'' @ channelType (settingsKey name) @ ''_channel''))"
      and "toString (guildInstance (''logs_'' @ channelType (settingsKey name) @ ''_channel'')) = Inr key"
  shows "handleEvent escape findOrCreate name a =
           (case channels_cache guild key of
              None \<Rightarrow> Inr None
            | Some ch \<Rightarrow> if channel_type ch = ''text'' then Inr (Some (ch, Some line)) else Inr None)"
  using assms by (simp add: handleEvent_def resolveChannel_def andThen_def Let_def split: option.splits)

lemma escapeMarkdown_ID_prefix:
  "escapeMarkdown (CHR ''I'' # CHR ''D'' # CHR '':'' # CHR '' '' # str)
     = CHR ''I'' # CHR ''D'' # CHR '':'' # CHR '' '' # escapeMarkdown str"
  by (simp add: escapeMarkdown_def markdown_control_def backslash_def)

lemma escapeMarkdown_Cons:
  "escapeMarkdown (c # cs) = (if markdown_control c then backslash # c # escapeMarkdown cs
                              else c # escapeMarkdown cs)"
  by (simp add: escapeMarkdown_def)

lemma escapeMarkdown_Nil [simp]: "escapeMarkdown [] = []"
  by (simp add: escapeMarkdown_def)

lemma escapeMarkdown_empty_iff: "escapeMarkdown str = [] \<longleftrightarrow> str = []"
  by (cases str) (simp_all add: escapeMarkdown_Cons)

lemma reason_length_escaped:
  "reason_length (map_option escapeMarkdown reason) = reason_length reason"
  by (cases reason) (simp_all add: escapeMarkdown_empty_iff)

lemma nickname_or_username_texts:
  "nickname_or_username (member_texts f m) = f (nickname_or_username m)"
  by (simp add: nickname_or_username_def member_texts_def user_texts_def split: option.splits)

lemma backslash_control: "markdown_control backslash"
  by (simp add: markdown_control_def)

lemma no_raw_control: "\<not> raw_control (escapeMarkdown str)"
proof (induction str)
  case Nil
  show ?case by simp
next
  case (Cons c cs)
  show ?case
  proof (cases "markdown_control c")
    case True
    then show ?thesis using Cons by (simp add: escapeMarkdown_Cons)
  next
    case False
    then have "c \<noteq> backslash" using backslash_control by auto
    with False Cons show ?thesis
      by (cases "escapeMarkdown cs") (simp_all add: escapeMarkdown_Cons)
  qed
qed

lemma unescape_escape: "unescapeMarkdown (escapeMarkdown str) = str"
proof (induction str)
  case Nil
  show ?case by simp
next
  case (Cons c cs)
  show ?case
  proof (cases "markdown_control c")
    case True
    then show ?thesis using Cons by (simp add: escapeMarkdown_Cons)
  next
    case False
    then have "c \<noteq> backslash" using backslash_control by auto
    with False Cons show ?thesis
      by (cases "escapeMarkdown cs") (simp_all add: escapeMarkdown_Cons)
  qed
qed

lemma rendered_escaped:
  "renderLogMessage escapeMarkdown name a = renderLogMessage id name (args_texts escapeMarkdown a)"
  by (cases a)
     (simp_all add: renderLogMessage_def eventMessageRenderer_def andThen_def
        member_texts_def user_texts_def entry_texts_def
        escapeMarkdown_ID_prefix reason_length_escaped
        nickname_or_username_texts [unfolded member_texts_def user_texts_def]
        split: option.splits)

section \<open>The audit correlator\<close>

text \<open>
  C2.  A member is removed, the bot may view the audit log, and the first entry of the
  returned log that targets the member with one of the three searched actions is a
  \<open>MEMBER_KICK\<close> entry for that member's id.  Then the event \<open>kick\<close> is emitted with the
  member and that entry, and the rendered kick line contains the executor's tag (as
  \<open>escape\<close> returns it) and either \<open>with reason\<close> followed by the entry's non-empty reason
  or the marker \<open>with no reason\<close>.  The member's state is taken as available (it was not
  partial, or its fetch completed).
\<close>

theorem member_remove_kick:
  assumes "completeMember fetch member0 = Inr member"
      and "me_hasPermission (member_guild member) ''VIEW_AUDIT_LOG''"
      and "fetchAuditLogs (member_guild member) None = Inr (earlier @ entry # later)"
      and "\<forall>x \<in> set earlier.
             \<not> (entry_action x \<in> {''MEMBER_KICK'', ''MEMBER_BAN_ADD'', ''MEMBER_BAN_REMOVE''}
                \<and> entry_targetType x = ''USER'' \<and> entry_target_id x = member_id member)"
      and "entry_action entry = ''MEMBER_KICK''"
      and "entry_targetType entry = ''USER''"
      and "entry_target_id entry = member_id member"
  shows "resolveMemberRemove fetch member0 = Inr (Some (''kick'', OfMemberEntry member entry))
       \<and> (\<exists>line. renderLogMessage escape ''kick'' (OfMemberEntry member entry) = Inr (Some line)
            \<and> sublist (escape (user_tag (entry_executor entry))) line
            \<and> (case entry_reason entry of
                  None \<Rightarrow> sublist '' with no reason'' line
                | Some reason \<Rightarrow>
                    if reason = [] then sublist '' with no reason'' line
                    else sublist ('' with reason '' @ escape reason) line))"
proof -
  let ?P = "\<lambda>entry. entry_action entry \<in> set [''MEMBER_KICK'', ''MEMBER_BAN_ADD'', ''MEMBER_BAN_REMOVE'']
                \<and> (entry_targetType entry = ''USER'' \<and> entry_target_id entry = member_id member)"
  have "\<forall>x \<in> set earlier. \<not> ?P x" using assms(4) by simp
  moreover have "?P entry" using assms(5-7) by simp
  ultimately have "find ?P (earlier @ entry # later) = Some entry" by (rule find_first)
  then have emitted: "resolveMemberRemove fetch member0 = Inr (Some (''kick'', OfMemberEntry member entry))"
    using assms(1-3,5) by (simp add: resolveMemberRemove_def)
  let ?tail = "'' | '' @ escape (''ID: '' @ member_id member) @ '' '' @ ''| '' @ escape (user_tag (member_user member))"
  let ?mid = "(if reason_length (entry_reason entry)
               then '' reason '' @ escape (case entry_reason entry of Some r \<Rightarrow> r | None \<Rightarrow> [])
               else '' no reason'')"
  let ?line = "'':boot: [KICK] by '' @ escape (user_tag (entry_executor entry)) @ '' with'' @ ?mid @ ?tail"
  have line: "renderLogMessage escape ''kick'' (OfMemberEntry member entry) = Inr (Some ?line)"
    by (rule kick_line)
  have tag: "sublist (escape (user_tag (entry_executor entry))) ?line"
    by (rule sublist_appendI)
  have "?line = ('':boot: [KICK] by '' @ escape (user_tag (entry_executor entry))) @ ('' with'' @ ?mid) @ ?tail"
    by simp
  then have marker: "sublist ('' with'' @ ?mid) ?line"
    by (metis sublist_appendI)
  have reason: "(case entry_reason entry of
                  None \<Rightarrow> sublist '' with no reason'' ?line
                | Some reason \<Rightarrow>
                    if reason = [] then sublist '' with no reason'' ?line
                    else sublist ('' with reason '' @ escape reason) ?line)"
    using marker by (cases "entry_reason entry") (auto split: if_splits)
  show ?thesis using emitted line tag reason by blast
qed

text \<open>Scenario A of the specification: executor \<open>Mod#0001\<close>, reason \<open>spam\<close>.\<close>

theorem member_remove_kick_witness:
  "resolveMemberRemove fetch_completes
     (ex_member True (ex_guild True (ex_logs
        [ex_entry ''MEMBER_BAN_ADD'' ''9'' None, ex_entry ''MEMBER_KICK'' ''42'' (Some ''spam'')])))
   = Inr (Some (''kick'',
        OfMemberEntry
          (ex_member False (ex_guild True (ex_logs
             [ex_entry ''MEMBER_BAN_ADD'' ''9'' None, ex_entry ''MEMBER_KICK'' ''42'' (Some ''spam'')])))
          (ex_entry ''MEMBER_KICK'' ''42'' (Some ''spam''))))
   \<and> (\<exists>line. renderLogMessage id ''kick''
                (OfMemberEntry
                   (ex_member False (ex_guild True (ex_logs
                      [ex_entry ''MEMBER_BAN_ADD'' ''9'' None, ex_entry ''MEMBER_KICK'' ''42'' (Some ''spam'')])))
                   (ex_entry ''MEMBER_KICK'' ''42'' (Some ''spam''))) = Inr (Some line)
          \<and> sublist ''Mod#0001'' line \<and> sublist '' with reason spam'' line)"
proof -
  let ?g = "ex_guild True (ex_logs
        [ex_entry ''MEMBER_BAN_ADD'' ''9'' None, ex_entry ''MEMBER_KICK'' ''42'' (Some ''spam'')])"
  let ?kick = "ex_entry ''MEMBER_KICK'' ''42'' (Some ''spam'')"
  have h1: "completeMember fetch_completes (ex_member True ?g) = Inr (ex_member False ?g)"
    by (simp add: completeMember_def fetch_completes_def ex_member_def)
  have h2: "me_hasPermission (member_guild (ex_member False ?g)) ''VIEW_AUDIT_LOG''"
    by (simp add: ex_member_def ex_guild_def)
  have h3: "fetchAuditLogs (member_guild (ex_member False ?g)) None
              = Inr ([ex_entry ''MEMBER_BAN_ADD'' ''9'' None] @ ?kick # [])"
    by (simp add: ex_member_def ex_guild_def ex_logs_def)
  have h4: "\<forall>x \<in> set [ex_entry ''MEMBER_BAN_ADD'' ''9'' None].
             \<not> (entry_action x \<in> {''MEMBER_KICK'', ''MEMBER_BAN_ADD'', ''MEMBER_BAN_REMOVE''}
                \<and> entry_targetType x = ''USER'' \<and> entry_target_id x = member_id (ex_member False ?g))"
    by (simp add: ex_entry_def ex_member_def)
  have h5: "entry_action ?kick = ''MEMBER_KICK''" by (simp add: ex_entry_def)
  have h6: "entry_targetType ?kick = ''USER''" by (simp add: ex_entry_def)
  have h7: "entry_target_id ?kick = member_id (ex_member False ?g)"
    by (simp add: ex_entry_def ex_member_def)
  from member_remove_kick [OF h1 h2 h3 h4 h5 h6 h7, of id]
  show ?thesis by (simp add: ex_entry_def ex_mod_def)
qed

text \<open>
  C6, as stated, fails: for a partial member whose fetch rejects, the method returns the
  rejection and emits no \<open>left\<close>, although the bot lacks the permission to view the audit
  log; and when the log query rejects, no entry is returned and no \<open>left\<close> is emitted.
\<close>

theorem member_remove_left_counterexample:
  "member_partial (ex_member True (ex_guild False logs_reject))
   \<and> \<not> me_hasPermission (member_guild (ex_member True (ex_guild False logs_reject))) ''VIEW_AUDIT_LOG''
   \<and> fetch_rejects (ex_member True (ex_guild False logs_reject)) = Inl Rejected
   \<and> resolveMemberRemove fetch_rejects (ex_member True (ex_guild False logs_reject)) = Inl Rejected
   \<and> resolveMemberRemove fetch_rejects (ex_member True (ex_guild False logs_reject))
       \<noteq> Inr (Some (''left'', OfMember (ex_member True (ex_guild False logs_reject))))
   \<and> fetchAuditLogs (ex_guild True logs_reject) None = Inl Rejected
   \<and> resolveMemberRemove fetch_rejects (ex_member False (ex_guild True logs_reject)) = Inl Rejected
   \<and> resolveMemberRemove fetch_rejects (ex_member False (ex_guild True logs_reject))
       \<noteq> Inr (Some (''left'', OfMember (ex_member False (ex_guild True logs_reject))))"
  by (simp add: resolveMemberRemove_def completeMember_def fetch_rejects_def logs_reject_def
        ex_member_def ex_guild_def)

text \<open>
  C6, amended.  When the member's state is available (the member is not partial, or its
  fetch completes) and the audit log is returned whenever it is queried, a member removal
  emits \<open>left\<close> exactly when the bot lacks the permission to view the audit log or no
  returned entry with action \<open>MEMBER_KICK\<close>, \<open>MEMBER_BAN_ADD\<close> or \<open>MEMBER_BAN_REMOVE\<close>
  targets the member's id; the emission then carries the member.  In every case \<open>kick\<close> is
  emitted only when the bot has the permission.
\<close>

theorem member_remove_left:
  "(completeMember fetch member0 = Inr member
      \<and> (me_hasPermission (member_guild member) ''VIEW_AUDIT_LOG''
            \<longrightarrow> fetchAuditLogs (member_guild member) None = Inr logs)
    \<longrightarrow> ((\<exists>a. resolveMemberRemove fetch member0 = Inr (Some (''left'', a))) \<longleftrightarrow>
            (\<not> me_hasPermission (member_guild member) ''VIEW_AUDIT_LOG''
             \<or> \<not> (\<exists>x \<in> set logs.
                     entry_action x \<in> {''MEMBER_KICK'', ''MEMBER_BAN_ADD'', ''MEMBER_BAN_REMOVE''}
                     \<and> entry_targetType x = ''USER'' \<and> entry_target_id x = member_id member)))
       \<and> (\<not> me_hasPermission (member_guild member) ''VIEW_AUDIT_LOG''
             \<or> \<not> (\<exists>x \<in> set logs.
                     entry_action x \<in> {''MEMBER_KICK'', ''MEMBER_BAN_ADD'', ''MEMBER_BAN_REMOVE''}
                     \<and> entry_targetType x = ''USER'' \<and> entry_target_id x = member_id member)
            \<longrightarrow> resolveMemberRemove fetch member0 = Inr (Some (''left'', OfMember member))))
   \<and> (\<forall>a. resolveMemberRemove fetch member0 = Inr (Some (''kick'', a))
          \<longrightarrow> (\<exists>loaded. completeMember fetch member0 = Inr loaded
                 \<and> me_hasPermission (member_guild loaded) ''VIEW_AUDIT_LOG''))"
proof -
  let ?P = "\<lambda>entry. entry_action entry \<in> set [''MEMBER_KICK'', ''MEMBER_BAN_ADD'', ''MEMBER_BAN_REMOVE'']
                \<and> (entry_targetType entry = ''USER'' \<and> entry_target_id entry = member_id member)"
  let ?perm = "me_hasPermission (member_guild member) ''VIEW_AUDIT_LOG''"
  let ?left = "\<exists>a. resolveMemberRemove fetch member0 = Inr (Some (''left'', a))"
  have main: "(?left \<longleftrightarrow> (\<not> ?perm \<or> \<not> (\<exists>x \<in> set logs. ?P x)))
              \<and> (\<not> ?perm \<or> \<not> (\<exists>x \<in> set logs. ?P x)
                   \<longrightarrow> resolveMemberRemove fetch member0 = Inr (Some (''left'', OfMember member)))"
    if loaded: "completeMember fetch member0 = Inr member"
      and returned: "?perm \<longrightarrow> fetchAuditLogs (member_guild member) None = Inr logs"
  proof (cases ?perm)
    case False
    then show ?thesis using loaded by (simp add: resolveMemberRemove_def)
  next
    case True
    with returned have logs: "fetchAuditLogs (member_guild member) None = Inr logs" by simp
    show ?thesis
    proof (cases "find ?P logs")
      case None
      then have "\<not> (\<exists>x \<in> set logs. ?P x)" by (simp add: find_None_iff)
      moreover have "resolveMemberRemove fetch member0 = Inr (Some (''left'', OfMember member))"
        using loaded True logs None by (simp add: resolveMemberRemove_def)
      ultimately show ?thesis using True by simp
    next
      case (Some e)
      then have "e \<in> set logs \<and> ?P e" by (auto simp: find_Some_iff)
      then have "\<exists>x \<in> set logs. ?P x" by (rule_tac x = e in bexI) simp_all
      moreover have "\<forall>a. resolveMemberRemove fetch member0 \<noteq> Inr (Some (''left'', a))"
        using loaded True logs Some by (simp add: resolveMemberRemove_def)
      ultimately show ?thesis using True by simp
    qed
  qed
  have kick: "\<forall>a. resolveMemberRemove fetch member0 = Inr (Some (''kick'', a))
          \<longrightarrow> (\<exists>loaded. completeMember fetch member0 = Inr loaded
                 \<and> me_hasPermission (member_guild loaded) ''VIEW_AUDIT_LOG'')"
    using kick_needs_permission by (intro allI impI)
  from main have "completeMember fetch member0 = Inr member \<and> (?perm \<longrightarrow> fetchAuditLogs (member_guild member) None = Inr logs)
    \<longrightarrow> (?left \<longleftrightarrow> (\<not> ?perm \<or> \<not> (\<exists>x \<in> set logs. ?P x)))
              \<and> (\<not> ?perm \<or> \<not> (\<exists>x \<in> set logs. ?P x)
                   \<longrightarrow> resolveMemberRemove fetch member0 = Inr (Some (''left'', OfMember member)))"
    by (intro impI) (elim conjE, rule main, assumption+)
  with kick show ?thesis by simp
qed

text \<open>
  A log whose only kick targets another member; and a partial member whose fetch
  completes, in a guild without the permission whose log query would reject.
\<close>

theorem member_remove_left_witness:
  "resolveMemberRemove fetch_completes
     (ex_member False (ex_guild True (ex_logs [ex_entry ''MEMBER_KICK'' ''9'' None])))
   = Inr (Some (''left'',
        OfMember (ex_member False (ex_guild True (ex_logs [ex_entry ''MEMBER_KICK'' ''9'' None])))))
   \<and> resolveMemberRemove fetch_completes (ex_member True (ex_guild False logs_reject))
   = Inr (Some (''left'', OfMember (ex_member False (ex_guild False logs_reject))))"
proof -
  let ?g = "ex_guild True (ex_logs [ex_entry ''MEMBER_KICK'' ''9'' None])"
  let ?h = "ex_guild False logs_reject"
  have g1: "completeMember fetch_completes (ex_member False ?g) = Inr (ex_member False ?g)"
    by (simp add: completeMember_def ex_member_def)
  have g2: "fetchAuditLogs (member_guild (ex_member False ?g)) None = Inr [ex_entry ''MEMBER_KICK'' ''9'' None]"
    by (simp add: ex_member_def ex_guild_def ex_logs_def)
  have k1: "completeMember fetch_completes (ex_member True ?h) = Inr (ex_member False ?h)"
    by (simp add: completeMember_def fetch_completes_def ex_member_def)
  have k2: "\<not> me_hasPermission (member_guild (ex_member False ?h)) ''VIEW_AUDIT_LOG''"
    by (simp add: ex_member_def ex_guild_def)
  have a: "resolveMemberRemove fetch_completes (ex_member False ?g)
             = Inr (Some (''left'', OfMember (ex_member False ?g)))"
    using member_remove_left [of fetch_completes "ex_member False ?g" "ex_member False ?g"
                                 "[ex_entry ''MEMBER_KICK'' ''9'' None]"] g1 g2
    by (simp add: ex_entry_def ex_member_def)
  have b: "resolveMemberRemove fetch_completes (ex_member True ?h)
             = Inr (Some (''left'', OfMember (ex_member False ?h)))"
    using member_remove_left [of fetch_completes "ex_member True ?h" "ex_member False ?h" "[]"] k1 k2
    by simp
  show ?thesis using a b by simp
qed

text \<open>
  C7.  When the first entry of the returned log that targets the removed member is a
  \<open>MEMBER_BAN_ADD\<close> or \<open>MEMBER_BAN_REMOVE\<close> entry, the member-remove path emits nothing at
  all.  An emission named \<open>ban\<close>, \<open>unban\<close>, \<open>banAudit\<close> or \<open>unbanAudit\<close> only ever comes
  from the client's ban-add and ban-remove events.
\<close>

theorem member_remove_ban_entry:
  assumes "completeMember fetch member0 = Inr member"
      and "me_hasPermission (member_guild member) ''VIEW_AUDIT_LOG''"
      and "fetchAuditLogs (member_guild member) None = Inr (earlier @ entry # later)"
      and "\<forall>x \<in> set earlier.
             \<not> (entry_action x \<in> {''MEMBER_KICK'', ''MEMBER_BAN_ADD'', ''MEMBER_BAN_REMOVE''}
                \<and> entry_targetType x = ''USER'' \<and> entry_target_id x = member_id member)"
      and "entry_action entry \<in> {''MEMBER_BAN_ADD'', ''MEMBER_BAN_REMOVE''}"
      and "entry_targetType entry = ''USER''"
      and "entry_target_id entry = member_id member"
  shows "resolveMemberRemove fetch member0 = Inr None
       \<and> (\<forall>fetch' ev name a.
             proxyDiscordEvents fetch' ev = Inr (Some (name, a))
             \<and> name \<in> {''ban'', ''unban'', ''banAudit'', ''unbanAudit''}
             \<longrightarrow> (\<exists>guild user. ev = GuildBanAdd guild user \<or> ev = GuildBanRemove guild user))"
proof -
  let ?P = "\<lambda>entry. entry_action entry \<in> set [''MEMBER_KICK'', ''MEMBER_BAN_ADD'', ''MEMBER_BAN_REMOVE'']
                \<and> (entry_targetType entry = ''USER'' \<and> entry_target_id entry = member_id member)"
  have "\<forall>x \<in> set earlier. \<not> ?P x" using assms(4) by simp
  moreover have "?P entry" using assms(5-7) by auto
  ultimately have "find ?P (earlier @ entry # later) = Some entry" by (rule find_first)
  moreover have "entry_action entry \<noteq> ''MEMBER_KICK''" using assms(5) by auto
  ultimately have none: "resolveMemberRemove fetch member0 = Inr None"
    using assms(1-3) by (simp add: resolveMemberRemove_def)
  have only: "\<exists>guild user. ev = GuildBanAdd guild user \<or> ev = GuildBanRemove guild user"
    if "proxyDiscordEvents fetch' ev = Inr (Some (name, a))"
       and "name \<in> {''ban'', ''unban'', ''banAudit'', ''unbanAudit''}"
    for fetch' ev name a
    using that
    by (cases ev)
       (auto simp: resolveMemberRemove_def resolveMemberUpdate_def
             split: sum.splits if_splits option.splits)
  show ?thesis using none only by blast
qed

text \<open>The member was kicked earlier and is banned now: the ban entry comes first.\<close>

theorem member_remove_ban_entry_witness:
  "resolveMemberRemove fetch_completes
     (ex_member False (ex_guild True (ex_logs
        [ex_entry ''MEMBER_BAN_ADD'' ''42'' None, ex_entry ''MEMBER_KICK'' ''42'' (Some ''spam'')])))
   = Inr None"
proof -
  let ?g = "ex_guild True (ex_logs
        [ex_entry ''MEMBER_BAN_ADD'' ''42'' None, ex_entry ''MEMBER_KICK'' ''42'' (Some ''spam'')])"
  let ?ban = "ex_entry ''MEMBER_BAN_ADD'' ''42'' None"
  have h1: "completeMember fetch_completes (ex_member False ?g) = Inr (ex_member False ?g)"
    by (simp add: completeMember_def ex_member_def)
  have h2: "me_hasPermission (member_guild (ex_member False ?g)) ''VIEW_AUDIT_LOG''"
    by (simp add: ex_member_def ex_guild_def)
  have h3: "fetchAuditLogs (member_guild (ex_member False ?g)) None
              = Inr ([] @ ?ban # [ex_entry ''MEMBER_KICK'' ''42'' (Some ''spam'')])"
    by (simp add: ex_member_def ex_guild_def ex_logs_def)
  have h4: "\<forall>x \<in> set [].
             \<not> (entry_action x \<in> {''MEMBER_KICK'', ''MEMBER_BAN_ADD'', ''MEMBER_BAN_REMOVE''}
                \<and> entry_targetType x = ''USER'' \<and> entry_target_id x = member_id (ex_member False ?g))"
    by simp
  have h5: "entry_action ?ban \<in> {''MEMBER_BAN_ADD'', ''MEMBER_BAN_REMOVE''}" by (simp add: ex_entry_def)
  have h6: "entry_targetType ?ban = ''USER''" by (simp add: ex_entry_def)
  have h7: "entry_target_id ?ban = member_id (ex_member False ?g)"
    by (simp add: ex_entry_def ex_member_def)
  from member_remove_ban_entry [OF h1 h2 h3 h4 h5 h6 h7]
  show ?thesis by simp
qed

text \<open>
  C4.  For a ban (an unban): without the permission to view the audit log the bare event
  \<open>ban\<close> (\<open>unban\<close>) is emitted; with it, the log is queried with the type filter
  \<open>MEMBER_BAN_ADD\<close> (\<open>MEMBER_BAN_REMOVE\<close>) and searched for an entry that targets the
  user.  No such entry gives the bare event, and the first such entry gives \<open>banAudit\<close>
  (\<open>unbanAudit\<close>) carrying the guild, the user and that entry.
\<close>

theorem ban_management_resolution:
  assumes "(ev, eventName, type) \<in> {(GuildBanAdd guild user, ''ban'', ''MEMBER_BAN_ADD''),
                                      (GuildBanRemove guild user, ''unban'', ''MEMBER_BAN_REMOVE'')}"
  shows "(\<not> me_hasPermission guild ''VIEW_AUDIT_LOG''
            \<longrightarrow> proxyDiscordEvents fetch ev = Inr (Some (eventName, OfGuildUser guild user)))
       \<and> (me_hasPermission guild ''VIEW_AUDIT_LOG'' \<longrightarrow>
            (\<forall>logs. fetchAuditLogs guild (Some type) = Inr logs \<longrightarrow>
               (\<not> (\<exists>x \<in> set logs. entry_targetType x = ''USER'' \<and> entry_target_id x = user_id user)
                  \<longrightarrow> proxyDiscordEvents fetch ev = Inr (Some (eventName, OfGuildUser guild user)))
             \<and> (\<forall>earlier entry later.
                   logs = earlier @ entry # later
                   \<and> (\<forall>x \<in> set earlier. \<not> (entry_targetType x = ''USER'' \<and> entry_target_id x = user_id user))
                   \<and> entry_targetType entry = ''USER'' \<and> entry_target_id entry = user_id user
                   \<longrightarrow> proxyDiscordEvents fetch ev
                         = Inr (Some (eventName @ ''Audit'', OfGuildUserEntry guild user entry)))))"
proof -
  let ?P = "\<lambda>entry. entry_targetType entry = ''USER'' \<and> entry_target_id entry = user_id user"
  have ev: "proxyDiscordEvents fetch ev = resolveBanManagementEvent eventName guild user"
    and ty: "''MEMBER_BAN_'' @ (if eventName = ''ban'' then ''ADD'' else ''REMOVE'') = type"
    using assms by auto
  have bare: "proxyDiscordEvents fetch ev = Inr (Some (eventName, OfGuildUser guild user))"
    if "\<not> me_hasPermission guild ''VIEW_AUDIT_LOG''"
    using that unfolding ev by (simp add: resolveBanManagementEvent_def)
  have nomatch: "proxyDiscordEvents fetch ev = Inr (Some (eventName, OfGuildUser guild user))"
    if "me_hasPermission guild ''VIEW_AUDIT_LOG''" "fetchAuditLogs guild (Some type) = Inr logs"
       "\<not> (\<exists>x \<in> set logs. ?P x)" for logs
  proof -
    from that(3) have "find ?P logs = None" by (simp add: find_None_iff)
    then show ?thesis using that(1,2) unfolding ev resolveBanManagementEvent_def ty by simp
  qed
  have match: "proxyDiscordEvents fetch ev
                 = Inr (Some (eventName @ ''Audit'', OfGuildUserEntry guild user entry))"
    if "me_hasPermission guild ''VIEW_AUDIT_LOG''" "fetchAuditLogs guild (Some type) = Inr logs"
       "logs = earlier @ entry # later" "\<forall>x \<in> set earlier. \<not> ?P x" "?P entry"
    for logs earlier entry later
  proof -
    from that(4,5) have "find ?P (earlier @ entry # later) = Some entry" by (rule find_first)
    then show ?thesis
      using that(1,2,3) unfolding ev resolveBanManagementEvent_def ty
      by (simp add: EVENT_NAME_AUDIT_POSTFIX_def)
  qed
  show ?thesis using bare nomatch match by blast
qed

text \<open>An unban with a logged cause, a ban with an empty log, a ban without the permission.\<close>

theorem ban_management_resolution_witness:
  "proxyDiscordEvents fetch_completes
     (GuildBanRemove
        (ex_guild True (ex_logs [ex_entry ''MEMBER_BAN_ADD'' ''42'' None,
                                 ex_entry ''MEMBER_BAN_REMOVE'' ''42'' (Some ''appeal'')]))
        ex_user)
   = Inr (Some (''unbanAudit'',
        OfGuildUserEntry
          (ex_guild True (ex_logs [ex_entry ''MEMBER_BAN_ADD'' ''42'' None,
                                   ex_entry ''MEMBER_BAN_REMOVE'' ''42'' (Some ''appeal'')]))
          ex_user (ex_entry ''MEMBER_BAN_REMOVE'' ''42'' (Some ''appeal''))))
   \<and> proxyDiscordEvents fetch_completes (GuildBanAdd (ex_guild True (ex_logs [])) ex_user)
     = Inr (Some (''ban'', OfGuildUser (ex_guild True (ex_logs [])) ex_user))
   \<and> proxyDiscordEvents fetch_completes (GuildBanAdd (ex_guild False logs_reject) ex_user)
     = Inr (Some (''ban'', OfGuildUser (ex_guild False logs_reject) ex_user))"
proof -
  let ?es = "[ex_entry ''MEMBER_BAN_ADD'' ''42'' None, ex_entry ''MEMBER_BAN_REMOVE'' ''42'' (Some ''appeal'')]"
  let ?g = "ex_guild True (ex_logs ?es)"
  let ?e = "ex_entry ''MEMBER_BAN_REMOVE'' ''42'' (Some ''appeal'')"
  have m: "(GuildBanRemove ?g ex_user, ''unban'', ''MEMBER_BAN_REMOVE'')
             \<in> {(GuildBanAdd ?g ex_user, ''ban'', ''MEMBER_BAN_ADD''),
                 (GuildBanRemove ?g ex_user, ''unban'', ''MEMBER_BAN_REMOVE'')}"
    by simp
  have p: "me_hasPermission ?g ''VIEW_AUDIT_LOG''" by (simp add: ex_guild_def)
  have l: "fetchAuditLogs ?g (Some ''MEMBER_BAN_REMOVE'') = Inr [?e]"
    by (simp add: ex_guild_def ex_logs_def ex_entry_def)
  have s: "[?e] = [] @ ?e # [] \<and> (\<forall>x \<in> set []. \<not> (entry_targetType x = ''USER'' \<and> entry_target_id x = user_id ex_user))
             \<and> entry_targetType ?e = ''USER'' \<and> entry_target_id ?e = user_id ex_user"
    by (simp add: ex_entry_def ex_user_def)
  have a: "proxyDiscordEvents fetch_completes (GuildBanRemove ?g ex_user)
             = Inr (Some (''unbanAudit'', OfGuildUserEntry ?g ex_user ?e))"
    using ban_management_resolution [OF m, of fetch_completes] p l s by force
  let ?h = "ex_guild True (ex_logs [])"
  have m2: "(GuildBanAdd ?h ex_user, ''ban'', ''MEMBER_BAN_ADD'')
             \<in> {(GuildBanAdd ?h ex_user, ''ban'', ''MEMBER_BAN_ADD''),
                 (GuildBanRemove ?h ex_user, ''unban'', ''MEMBER_BAN_REMOVE'')}"
    by simp
  have p2: "me_hasPermission ?h ''VIEW_AUDIT_LOG''" by (simp add: ex_guild_def)
  have l2: "fetchAuditLogs ?h (Some ''MEMBER_BAN_ADD'') = Inr []"
    by (simp add: ex_guild_def ex_logs_def)
  have b: "proxyDiscordEvents fetch_completes (GuildBanAdd ?h ex_user)
             = Inr (Some (''ban'', OfGuildUser ?h ex_user))"
    using ban_management_resolution [OF m2, of fetch_completes] p2 l2 by force
  let ?k = "ex_guild False logs_reject"
  have m3: "(GuildBanAdd ?k ex_user, ''ban'', ''MEMBER_BAN_ADD'')
             \<in> {(GuildBanAdd ?k ex_user, ''ban'', ''MEMBER_BAN_ADD''),
                 (GuildBanRemove ?k ex_user, ''unban'', ''MEMBER_BAN_REMOVE'')}"
    by simp
  have p3: "\<not> me_hasPermission ?k ''VIEW_AUDIT_LOG''" by (simp add: ex_guild_def)
  have c: "proxyDiscordEvents fetch_completes (GuildBanAdd ?k ex_user)
             = Inr (Some (''ban'', OfGuildUser ?k ex_user))"
    using ban_management_resolution [OF m3, of fetch_completes] p3 by blast
  show ?thesis using a b c by simp
qed

text \<open>
  C3, as stated, fails: a partial member whose fetch rejects yields the rejection and not
  \<open>left\<close>, even when the bot lacks the permission; an audit-log query that rejects yields
  the rejection and neither \<open>left\<close> nor \<open>ban\<close>.
\<close>

theorem enrichment_failure_counterexample:
  "member_partial (ex_member True (ex_guild False (ex_logs [])))
   \<and> fetch_rejects (ex_member True (ex_guild False (ex_logs []))) = Inl Rejected
   \<and> resolveMemberRemove fetch_rejects (ex_member True (ex_guild False (ex_logs []))) = Inl Rejected
   \<and> me_hasPermission (ex_guild True logs_reject) ''VIEW_AUDIT_LOG''
   \<and> fetchAuditLogs (ex_guild True logs_reject) None = Inl Rejected
   \<and> resolveMemberRemove fetch_completes (ex_member False (ex_guild True logs_reject)) = Inl Rejected
   \<and> fetchAuditLogs (ex_guild True logs_reject) (Some ''MEMBER_BAN_ADD'') = Inl Rejected
   \<and> resolveBanManagementEvent ''ban'' (ex_guild True logs_reject) ex_user = Inl Rejected"
  by (simp add: resolveMemberRemove_def resolveBanManagementEvent_def completeMember_def
        fetch_rejects_def logs_reject_def ex_member_def ex_guild_def)

text \<open>
  C3, amended.  A missing permission to view the audit log degrades to the bare event
  (\<open>left\<close> once the member's state is available; \<open>ban\<close> or \<open>unban\<close>), whatever the log
  would have returned.  A member fetch or an audit-log query that rejects is not caught:
  the method returns that rejection and emits no event.
\<close>

theorem enrichment_failure:
  "(completeMember fetch member0 = Inr member
      \<and> \<not> me_hasPermission (member_guild member) ''VIEW_AUDIT_LOG''
      \<longrightarrow> resolveMemberRemove fetch member0 = Inr (Some (''left'', OfMember member)))
   \<and> (\<not> me_hasPermission guild ''VIEW_AUDIT_LOG''
      \<longrightarrow> resolveBanManagementEvent eventName guild user = Inr (Some (eventName, OfGuildUser guild user)))
   \<and> (completeMember fetch member0 = Inl err \<longrightarrow> resolveMemberRemove fetch member0 = Inl err)
   \<and> (completeMember fetch member0 = Inr member
      \<and> me_hasPermission (member_guild member) ''VIEW_AUDIT_LOG''
      \<and> fetchAuditLogs (member_guild member) None = Inl err
      \<longrightarrow> resolveMemberRemove fetch member0 = Inl err)
   \<and> (me_hasPermission guild ''VIEW_AUDIT_LOG''
      \<and> fetchAuditLogs guild (Some (''MEMBER_BAN_'' @ (if eventName = ''ban'' then ''ADD'' else ''REMOVE''))) = Inl err
      \<longrightarrow> resolveBanManagementEvent eventName guild user = Inl err)"
  by (simp add: resolveMemberRemove_def resolveBanManagementEvent_def)

theorem enrichment_failure_witness:
  "resolveMemberRemove fetch_completes (ex_member True (ex_guild False logs_reject))
     = Inr (Some (''left'', OfMember (ex_member False (ex_guild False logs_reject))))
   \<and> resolveBanManagementEvent ''unban'' (ex_guild False logs_reject) ex_user
     = Inr (Some (''unban'', OfGuildUser (ex_guild False logs_reject) ex_user))
   \<and> resolveMemberRemove fetch_rejects (ex_member True (ex_guild True (ex_logs []))) = Inl Rejected
   \<and> resolveMemberRemove fetch_completes (ex_member True (ex_guild True logs_reject)) = Inl Rejected
   \<and> resolveBanManagementEvent ''unban'' (ex_guild True logs_reject) ex_user = Inl Rejected"
proof -
  let ?g = "ex_guild False logs_reject"
  let ?h = "ex_guild True logs_reject"
  have c1: "completeMember fetch_completes (ex_member True ?g) = Inr (ex_member False ?g)"
    by (simp add: completeMember_def fetch_completes_def ex_member_def)
  have p1: "\<not> me_hasPermission (member_guild (ex_member False ?g)) ''VIEW_AUDIT_LOG''"
    by (simp add: ex_member_def ex_guild_def)
  have p2: "\<not> me_hasPermission ?g ''VIEW_AUDIT_LOG''" by (simp add: ex_guild_def)
  have c3: "completeMember fetch_rejects (ex_member True (ex_guild True (ex_logs []))) = Inl Rejected"
    by (simp add: completeMember_def fetch_rejects_def ex_member_def)
  have c4: "completeMember fetch_completes (ex_member True ?h) = Inr (ex_member False ?h)"
    by (simp add: completeMember_def fetch_completes_def ex_member_def)
  have p4: "me_hasPermission (member_guild (ex_member False ?h)) ''VIEW_AUDIT_LOG''"
    by (simp add: ex_member_def ex_guild_def)
  have l4: "fetchAuditLogs (member_guild (ex_member False ?h)) None = Inl Rejected"
    by (simp add: ex_member_def ex_guild_def logs_reject_def)
  have p5: "me_hasPermission ?h ''VIEW_AUDIT_LOG''" by (simp add: ex_guild_def)
  have l5: "fetchAuditLogs ?h (Some (''MEMBER_BAN_'' @ (if ''unban'' = ''ban'' then ''ADD'' else ''REMOVE''))) = Inl Rejected"
    by (simp add: ex_guild_def logs_reject_def)
  have a: "resolveMemberRemove fetch_completes (ex_member True ?g)
             = Inr (Some (''left'', OfMember (ex_member False ?g)))"
    using enrichment_failure [of fetch_completes "ex_member True ?g" "ex_member False ?g"] c1 p1 by blast
  have b: "resolveBanManagementEvent ''unban'' ?g ex_user = Inr (Some (''unban'', OfGuildUser ?g ex_user))"
    using enrichment_failure [of _ _ _ ?g "''unban''" ex_user] p2 by blast
  have c: "resolveMemberRemove fetch_rejects (ex_member True (ex_guild True (ex_logs []))) = Inl Rejected"
    using enrichment_failure [of fetch_rejects "ex_member True (ex_guild True (ex_logs []))" _ _ _ _ Rejected] c3 by blast
  have d: "resolveMemberRemove fetch_completes (ex_member True ?h) = Inl Rejected"
    using enrichment_failure [of fetch_completes "ex_member True ?h" "ex_member False ?h" _ _ _ Rejected] c4 p4 l4 by blast
  have e: "resolveBanManagementEvent ''unban'' ?h ex_user = Inl Rejected"
    using enrichment_failure [of _ _ _ ?h "''unban''" ex_user Rejected] p5 l5 by blast
  show ?thesis using a b c d e by simp
qed

section \<open>The settings key\<close>

text \<open>
  C5.  The settings key is \<open>ban\<close> for each of \<open>ban\<close>, \<open>banAudit\<close>, \<open>unban\<close> and
  \<open>unbanAudit\<close>, and computing the key of a key changes nothing: for every event name the
  module subscribes to, and for every name that does not end with the postfix twice.
\<close>

theorem settingsKey_collapse:
  "settingsKey ''ban'' = ''ban'' \<and> settingsKey ''banAudit'' = ''ban''
   \<and> settingsKey ''unban'' = ''ban'' \<and> settingsKey ''unbanAudit'' = ''ban''
   \<and> (\<forall>name \<in> set (handleLogEvents escape). settingsKey (settingsKey name) = settingsKey name)
   \<and> (\<not> suffix ''AuditAudit'' name \<longrightarrow> settingsKey (settingsKey name) = settingsKey name)"
proof -
  have "\<forall>name \<in> set (handleLogEvents escape). \<not> suffix ''AuditAudit'' name"
    unfolding handleLogEvents_names by (simp add: suffix_def)
  then show ?thesis using settingsKey_ban_kinds settingsKey_idem by blast
qed

theorem settingsKey_collapse_witness:
  "''unbanAudit'' \<in> set (handleLogEvents id)
   \<and> settingsKey (settingsKey ''unbanAudit'') = settingsKey ''unbanAudit''
   \<and> settingsKey ''unbanAudit'' = ''ban''
   \<and> \<not> suffix ''AuditAudit'' ''kick''
   \<and> settingsKey (settingsKey ''kick'') = settingsKey ''kick''"
proof -
  have a: "''unbanAudit'' \<in> set (handleLogEvents id)" by (simp add: handleLogEvents_names)
  have b: "\<not> suffix ''AuditAudit'' ''kick''" by (simp add: suffix_def)
  show ?thesis
    using settingsKey_collapse [of id "''kick''"] a b by blast
qed

section \<open>Routing and delivery\<close>

text \<open>
  C1.  For every event the proxies emit, the guild and the line are resolved, and for the
  row that \<open>findOrCreate\<close> returns for the guild: a message is handed to a channel if and
  only if \<open>logs_enabled\<close> is truthy, the flag of the event's settings key is truthy, the
  channel column of the key's category is truthy, its string form is the id of a channel
  in the guild's cache, and that channel's type is \<open>text\<close>.  Then the message is the
  rendered line and the channel is that one; when any of the conditions fails the result
  is \<open>Inr None\<close>: nothing is sent and nothing is thrown.
\<close>

theorem handleEvent_delivery:
  assumes "proxyDiscordEvents fetch ev = Inr (Some (name, a))"
  shows "\<exists>guild line.
           resolveGuild name a = Inr (Some guild)
         \<and> renderLogMessage escape name a = Inr (Some line)
         \<and> (\<forall>guildInstance. findOrCreate (guild_id guild) = Inr guildInstance \<longrightarrow>
              (let configured = guildInstance (''logs_'' @ channelType (settingsKey name) @ ''_channel'');
                   accepted =
                     (truthy (guildInstance ''logs_enabled'')
                      \<and> truthy (guildInstance (''logs_'' @ settingsKey name @ ''_event''))
                      \<and> truthy configured
                      \<and> (\<exists>key ch. toString configured = Inr key \<and> channels_cache guild key = Some ch
                             \<and> channel_type ch = ''text''))
               in ((\<exists>ch message. handleEvent escape findOrCreate name a = Inr (Some (ch, message)))
                      \<longleftrightarrow> accepted)
                \<and> (accepted \<longrightarrow>
                      (\<exists>key ch. toString configured = Inr key \<and> channels_cache guild key = Some ch
                         \<and> handleEvent escape findOrCreate name a = Inr (Some (ch, Some line))))
                \<and> (\<not> accepted \<longrightarrow> handleEvent escape findOrCreate name a = Inr None)))"
proof -
  from emitted_resolves [OF assms, of escape] obtain guild line
    where g: "resolveGuild name a = Inr (Some guild)"
      and l: "renderLogMessage escape name a = Inr (Some line)"
    by (elim exE conjE) simp
  have "(let configured = guildInstance (''logs_'' @ channelType (settingsKey name) @ ''_channel'');
             accepted =
               (truthy (guildInstance ''logs_enabled'')
                \<and> truthy (guildInstance (''logs_'' @ settingsKey name @ ''_event''))
                \<and> truthy configured
                \<and> (\<exists>key ch. toString configured = Inr key \<and> channels_cache guild key = Some ch
                       \<and> channel_type ch = ''text''))
         in ((\<exists>ch message. handleEvent escape findOrCreate name a = Inr (Some (ch, message)))
                \<longleftrightarrow> accepted)
          \<and> (accepted \<longrightarrow>
                (\<exists>key ch. toString configured = Inr key \<and> channels_cache guild key = Some ch
                   \<and> handleEvent escape findOrCreate name a = Inr (Some (ch, Some line))))
          \<and> (\<not> accepted \<longrightarrow> handleEvent escape findOrCreate name a = Inr None))"
    if f: "findOrCreate (guild_id guild) = Inr guildInstance" for guildInstance
  proof -
    define master where "master = truthy (guildInstance ''logs_enabled'')"
    define flag where "flag = truthy (guildInstance (''logs_'' @ settingsKey name @ ''_event''))"
    define configured where "configured = guildInstance (''logs_'' @ channelType (settingsKey name) @ ''_channel'')"
    define result where "result = handleEvent escape findOrCreate name a"
    have rejected: "result = Inr None" if "\<not> (master \<and> flag \<and> truthy configured)"
      using handleEvent_rejected [where findOrCreate = findOrCreate and guildInstance = guildInstance
              and escape = escape, OF g f] that
      unfolding master_def flag_def configured_def result_def by simp
    have resolved: "result = (case channels_cache guild key of
              None \<Rightarrow> Inr None
            | Some ch \<Rightarrow> if channel_type ch = ''text'' then Inr (Some (ch, Some line)) else Inr None)"
      if "master \<and> flag \<and> truthy configured" "toString configured = Inr key" for key
      using handleEvent_resolved [where findOrCreate = findOrCreate and guildInstance = guildInstance
              and key = key, OF g l f] that
      unfolding master_def flag_def configured_def result_def by simp
    have "((\<exists>ch message. result = Inr (Some (ch, message)))
             \<longleftrightarrow> (master \<and> flag \<and> truthy configured
                  \<and> (\<exists>key ch. toString configured = Inr key \<and> channels_cache guild key = Some ch
                         \<and> channel_type ch = ''text'')))
          \<and> ((master \<and> flag \<and> truthy configured
                  \<and> (\<exists>key ch. toString configured = Inr key \<and> channels_cache guild key = Some ch
                         \<and> channel_type ch = ''text'')) \<longrightarrow>
                (\<exists>key ch. toString configured = Inr key \<and> channels_cache guild key = Some ch
                   \<and> result = Inr (Some (ch, Some line))))
          \<and> (\<not> (master \<and> flag \<and> truthy configured
                  \<and> (\<exists>key ch. toString configured = Inr key \<and> channels_cache guild key = Some ch
                         \<and> channel_type ch = ''text'')) \<longrightarrow> result = Inr None)"
    proof (cases "master \<and> flag \<and> truthy configured")
      case False
      then show ?thesis using rejected by auto
    next
      case True
      then obtain key where k: "toString configured = Inr key"
        using truthy_toString by blast
      note r = resolved [OF True k]
      show ?thesis
      proof (cases "channels_cache guild key")
        case None
        then show ?thesis using True k r by auto
      next
        case (Some ch)
        then show ?thesis using True k r by auto
      qed
    qed
    then show ?thesis
      unfolding master_def flag_def configured_def result_def Let_def .
  qed
  with g l show ?thesis by (intro exI conjI allI impI)
qed

text \<open>
  Scenario A (the kick line reaches channel \<open>100\<close>), scenario B (kick flag off),
  scenario D (the configured channel \<open>300\<close> is not in the guild), and a voice channel.
\<close>

theorem handleEvent_delivery_witness:
  "handleEvent id (ex_findOrCreate (ex_row 1 ''100'')) ''kick''
     (OfMemberEntry
        (ex_member False (ex_guild True (ex_logs [ex_entry ''MEMBER_KICK'' ''42'' (Some ''spam'')])))
        (ex_entry ''MEMBER_KICK'' ''42'' (Some ''spam'')))
   = Inr (Some (ex_text_channel, Some '':boot: [KICK] by Mod#0001 with reason spam | ID: 42 | Bob#0002''))
   \<and> handleEvent id (ex_findOrCreate (ex_row 0 ''100'')) ''kick''
     (OfMemberEntry
        (ex_member False (ex_guild True (ex_logs [ex_entry ''MEMBER_KICK'' ''42'' (Some ''spam'')])))
        (ex_entry ''MEMBER_KICK'' ''42'' (Some ''spam'')))
   = Inr None
   \<and> handleEvent id (ex_findOrCreate (ex_row 1 ''300'')) ''kick''
     (OfMemberEntry
        (ex_member False (ex_guild True (ex_logs [ex_entry ''MEMBER_KICK'' ''42'' (Some ''spam'')])))
        (ex_entry ''MEMBER_KICK'' ''42'' (Some ''spam'')))
   = Inr None
   \<and> handleEvent id (ex_findOrCreate (ex_row 1 ''200'')) ''kick''
     (OfMemberEntry
        (ex_member False (ex_guild True (ex_logs [ex_entry ''MEMBER_KICK'' ''42'' (Some ''spam'')])))
        (ex_entry ''MEMBER_KICK'' ''42'' (Some ''spam'')))
   = Inr None"
proof -
  let ?g = "ex_guild True (ex_logs [ex_entry ''MEMBER_KICK'' ''42'' (Some ''spam'')])"
  let ?e = "ex_entry ''MEMBER_KICK'' ''42'' (Some ''spam'')"
  let ?a = "OfMemberEntry (ex_member False ?g) ?e"
  let ?l = "'':boot: [KICK] by Mod#0001 with reason spam | ID: 42 | Bob#0002''"
  have em: "proxyDiscordEvents fetch_completes (GuildMemberRemove (ex_member True ?g))
              = Inr (Some (''kick'', ?a))"
    by (simp add: resolveMemberRemove_def completeMember_def fetch_completes_def ex_member_def
          ex_guild_def ex_logs_def ex_entry_def)
  have key: "settingsKey ''kick'' = ''kick''"
    by (simp add: settingsKey_def EVENT_NAME_AUDIT_POSTFIX_def suffix_def)
  have cat: "channelType ''kick'' = ''public''"
    by (simp add: channelType_def)
  have step:
    "(truthy (row ''logs_enabled'') \<and> truthy (row ''logs_kick_event'') \<and> truthy (row ''logs_public_channel'')
        \<and> (\<exists>key ch. toString (row ''logs_public_channel'') = Inr key \<and> channels_cache ?g key = Some ch
               \<and> channel_type ch = ''text'')
      \<longrightarrow> (\<exists>key ch. toString (row ''logs_public_channel'') = Inr key \<and> channels_cache ?g key = Some ch
               \<and> handleEvent id (ex_findOrCreate row) ''kick'' ?a = Inr (Some (ch, Some ?l))))
     \<and> (\<not> (truthy (row ''logs_enabled'') \<and> truthy (row ''logs_kick_event'') \<and> truthy (row ''logs_public_channel'')
        \<and> (\<exists>key ch. toString (row ''logs_public_channel'') = Inr key \<and> channels_cache ?g key = Some ch
               \<and> channel_type ch = ''text''))
      \<longrightarrow> handleEvent id (ex_findOrCreate row) ''kick'' ?a = Inr None)" for row
  proof -
    from handleEvent_delivery [OF em, of id "ex_findOrCreate row"]
    obtain guild line
      where g: "resolveGuild ''kick'' ?a = Inr (Some guild)"
        and l: "renderLogMessage id ''kick'' ?a = Inr (Some line)"
        and d: "\<forall>guildInstance. ex_findOrCreate row (guild_id guild) = Inr guildInstance \<longrightarrow>
              (let configured = guildInstance (''logs_'' @ channelType (settingsKey ''kick'') @ ''_channel'');
                   accepted =
                     (truthy (guildInstance ''logs_enabled'')
                      \<and> truthy (guildInstance (''logs_'' @ settingsKey ''kick'' @ ''_event''))
                      \<and> truthy configured
                      \<and> (\<exists>key ch. toString configured = Inr key \<and> channels_cache guild key = Some ch
                             \<and> channel_type ch = ''text''))
               in ((\<exists>ch message. handleEvent id (ex_findOrCreate row) ''kick'' ?a = Inr (Some (ch, message)))
                      \<longleftrightarrow> accepted)
                \<and> (accepted \<longrightarrow>
                      (\<exists>key ch. toString configured = Inr key \<and> channels_cache guild key = Some ch
                         \<and> handleEvent id (ex_findOrCreate row) ''kick'' ?a = Inr (Some (ch, Some line))))
                \<and> (\<not> accepted \<longrightarrow> handleEvent id (ex_findOrCreate row) ''kick'' ?a = Inr None))"
      by (elim exE conjE) simp
    from g have guild: "guild = ?g"
      by (simp add: resolveGuild_def guildResolver_def andThen_def ex_member_def)
    from l have line: "line = ?l"
      by (simp add: renderLogMessage_def eventMessageRenderer_def andThen_def ex_member_def
            ex_entry_def ex_mod_def ex_user_def)
    have "ex_findOrCreate row (guild_id guild) = Inr row" by (simp add: ex_findOrCreate_def)
    with d show ?thesis unfolding guild line key cat Let_def by simp
  qed
  have a: "handleEvent id (ex_findOrCreate (ex_row 1 ''100'')) ''kick'' ?a = Inr (Some (ex_text_channel, Some ?l))"
    using step [of "ex_row 1 ''100''"]
    by (simp add: ex_row_def ex_guild_def ex_text_channel_def)
  have b: "handleEvent id (ex_findOrCreate (ex_row 0 ''100'')) ''kick'' ?a = Inr None"
    using step [of "ex_row 0 ''100''"] by (simp add: ex_row_def)
  have c: "handleEvent id (ex_findOrCreate (ex_row 1 ''300'')) ''kick'' ?a = Inr None"
    using step [of "ex_row 1 ''300''"] by (simp add: ex_row_def ex_guild_def)
  have d: "handleEvent id (ex_findOrCreate (ex_row 1 ''200'')) ''kick'' ?a = Inr None"
    using step [of "ex_row 1 ''200''"] by (simp add: ex_row_def ex_guild_def ex_voice_channel_def)
  show ?thesis using a b c d by simp
qed

text \<open>
  C10.  Each of \<open>join\<close>, \<open>left\<close>, \<open>rename\<close>, \<open>kick\<close>, \<open>ban\<close>, \<open>banAudit\<close>, \<open>unban\<close> and
  \<open>unbanAudit\<close> has an entry in the renderer table and in the guild-resolver table; the
  subscribed names are exactly the keys of the renderer table (and of the resolver table);
  and every emission of the proxies has one of these names, reaches \<open>#handleEvent\<close>
  (it is not dropped), and has its guild resolved and its line rendered without a fault.
\<close>

theorem dispatch_tables_total:
  "(\<forall>name \<in> set [''join'', ''left'', ''rename'', ''kick'', ''ban'', ''banAudit'', ''unban'', ''unbanAudit''].
       map_of (eventMessageRenderer escape) name \<noteq> None \<and> map_of guildResolver name \<noteq> None)
   \<and> set (handleLogEvents escape) = dom (map_of (eventMessageRenderer escape))
   \<and> set (handleLogEvents escape) = dom (map_of guildResolver)
   \<and> (\<forall>fetch ev name a.
         proxyDiscordEvents fetch ev = Inr (Some (name, a)) \<longrightarrow>
           name \<in> set [''join'', ''left'', ''rename'', ''kick'', ''ban'', ''banAudit'', ''unban'', ''unbanAudit'']
         \<and> emit escape findOrCreate (name, a) = Some (handleEvent escape findOrCreate name a)
         \<and> (\<exists>guild line. resolveGuild name a = Inr (Some guild)
               \<and> renderLogMessage escape name a = Inr (Some line)))"
proof -
  have tables: "\<forall>name \<in> set [''join'', ''left'', ''rename'', ''kick'', ''ban'', ''banAudit'', ''unban'', ''unbanAudit''].
       map_of (eventMessageRenderer escape) name \<noteq> None \<and> map_of guildResolver name \<noteq> None"
    by (simp add: eventMessageRenderer_def guildResolver_def)
  have keys: "set (handleLogEvents escape) = dom (map_of (eventMessageRenderer escape))"
    by (simp add: handleLogEvents_def dom_map_of_conv_image_fst)
  have "dom (map_of guildResolver) = fst ` set guildResolver"
    by (rule dom_map_of_conv_image_fst)
  also have "\<dots> = set (handleLogEvents escape)"
    unfolding handleLogEvents_names by (simp add: guildResolver_def insert_commute)
  finally have same: "set (handleLogEvents escape) = dom (map_of guildResolver)" by simp
  have emitted:
    "name \<in> set [''join'', ''left'', ''rename'', ''kick'', ''ban'', ''banAudit'', ''unban'', ''unbanAudit'']
     \<and> emit escape findOrCreate (name, a) = Some (handleEvent escape findOrCreate name a)
     \<and> (\<exists>guild line. resolveGuild name a = Inr (Some guild)
           \<and> renderLogMessage escape name a = Inr (Some line))"
    if em: "proxyDiscordEvents fetch ev = Inr (Some (name, a))" for fetch ev name a
  proof -
    have sub: "name \<in> set (handleLogEvents escape)" by (rule emitted_subscribed [OF em])
    then have "name \<in> set [''join'', ''left'', ''rename'', ''kick'', ''ban'', ''banAudit'', ''unban'', ''unbanAudit'']"
      unfolding handleLogEvents_names by auto
    moreover have "emit escape findOrCreate (name, a) = Some (handleEvent escape findOrCreate name a)"
      using sub by (simp add: emit_def)
    ultimately show ?thesis using emitted_resolves [OF em, of escape] by simp
  qed
  from emitted have "\<forall>fetch ev name a.
         proxyDiscordEvents fetch ev = Inr (Some (name, a)) \<longrightarrow>
           name \<in> set [''join'', ''left'', ''rename'', ''kick'', ''ban'', ''banAudit'', ''unban'', ''unbanAudit'']
         \<and> emit escape findOrCreate (name, a) = Some (handleEvent escape findOrCreate name a)
         \<and> (\<exists>guild line. resolveGuild name a = Inr (Some guild)
               \<and> renderLogMessage escape name a = Inr (Some line))"
    by (intro allI impI)
  with tables keys same show ?thesis by (intro conjI)
qed

text \<open>A ban with a logged cause: the emission \<open>banAudit\<close> is handled and resolved.\<close>

theorem dispatch_tables_total_witness:
  "proxyDiscordEvents fetch_completes
     (GuildBanAdd (ex_guild True (ex_logs [ex_entry ''MEMBER_BAN_ADD'' ''42'' None])) ex_user)
     = Inr (Some (''banAudit'',
         OfGuildUserEntry (ex_guild True (ex_logs [ex_entry ''MEMBER_BAN_ADD'' ''42'' None])) ex_user
           (ex_entry ''MEMBER_BAN_ADD'' ''42'' None)))
   \<and> map_of (eventMessageRenderer id) ''banAudit'' \<noteq> None
   \<and> map_of guildResolver ''banAudit'' \<noteq> None
   \<and> emit id (ex_findOrCreate (ex_row 1 ''100''))
        (''banAudit'',
         OfGuildUserEntry (ex_guild True (ex_logs [ex_entry ''MEMBER_BAN_ADD'' ''42'' None])) ex_user
           (ex_entry ''MEMBER_BAN_ADD'' ''42'' None))
     = Some (handleEvent id (ex_findOrCreate (ex_row 1 ''100'')) ''banAudit''
         (OfGuildUserEntry (ex_guild True (ex_logs [ex_entry ''MEMBER_BAN_ADD'' ''42'' None])) ex_user
           (ex_entry ''MEMBER_BAN_ADD'' ''42'' None)))
   \<and> (\<exists>guild line.
         resolveGuild ''banAudit''
           (OfGuildUserEntry (ex_guild True (ex_logs [ex_entry ''MEMBER_BAN_ADD'' ''42'' None])) ex_user
             (ex_entry ''MEMBER_BAN_ADD'' ''42'' None)) = Inr (Some guild)
         \<and> renderLogMessage id ''banAudit''
           (OfGuildUserEntry (ex_guild True (ex_logs [ex_entry ''MEMBER_BAN_ADD'' ''42'' None])) ex_user
             (ex_entry ''MEMBER_BAN_ADD'' ''42'' None)) = Inr (Some line))"
proof -
  let ?g = "ex_guild True (ex_logs [ex_entry ''MEMBER_BAN_ADD'' ''42'' None])"
  let ?a = "OfGuildUserEntry ?g ex_user (ex_entry ''MEMBER_BAN_ADD'' ''42'' None)"
  have em: "proxyDiscordEvents fetch_completes (GuildBanAdd ?g ex_user) = Inr (Some (''banAudit'', ?a))"
    by (simp add: resolveBanManagementEvent_def EVENT_NAME_AUDIT_POSTFIX_def ex_guild_def ex_logs_def
          ex_entry_def ex_user_def)
  have mem: "''banAudit'' \<in> set [''join'', ''left'', ''rename'', ''kick'', ''ban'', ''banAudit'', ''unban'', ''unbanAudit'']"
    by simp
  note total = dispatch_tables_total [of id "ex_findOrCreate (ex_row 1 ''100'')"]
  from total [THEN conjunct1] mem have tables:
    "map_of (eventMessageRenderer id) ''banAudit'' \<noteq> None \<and> map_of guildResolver ''banAudit'' \<noteq> None"
    by (rule bspec)
  note emitted = total [THEN conjunct2, THEN conjunct2, THEN conjunct2, rule_format, OF em]
  show ?thesis using em tables emitted by simp
qed

section \<open>Rendering\<close>

text \<open>
  C8 does not hold for \<open>unbanAudit\<close>: its line names the executor but carries neither the
  entry's reason nor the marker \<open>no reason\<close>, with a reason and without one, while the
  line of \<open>banAudit\<close> for the same entry data carries \<open>with reason appeal\<close>.  (The escape
  function leaves these texts unchanged; identity stands for it.)
\<close>

theorem unbanAudit_omits_reason:
  "renderLogMessage id ''unbanAudit''
     (OfGuildUserEntry (ex_guild True (ex_logs [])) ex_user
        (ex_entry ''MEMBER_BAN_REMOVE'' ''42'' (Some ''appeal'')))
     = Inr (Some '':peace: [UNBAN] by Mod#0001 | ID: 42 | Bob#0002'')
   \<and> renderLogMessage id ''unbanAudit''
     (OfGuildUserEntry (ex_guild True (ex_logs [])) ex_user
        (ex_entry ''MEMBER_BAN_REMOVE'' ''42'' None))
     = Inr (Some '':peace: [UNBAN] by Mod#0001 | ID: 42 | Bob#0002'')
   \<and> \<not> sublist ''appeal'' '':peace: [UNBAN] by Mod#0001 | ID: 42 | Bob#0002''
   \<and> \<not> sublist ''no reason'' '':peace: [UNBAN] by Mod#0001 | ID: 42 | Bob#0002''
   \<and> renderLogMessage id ''banAudit''
     (OfGuildUserEntry (ex_guild True (ex_logs [])) ex_user
        (ex_entry ''MEMBER_BAN_ADD'' ''42'' (Some ''appeal'')))
     = Inr (Some '':hammer: [BAN] by Mod#0001 with reason appeal | ID: 42 | Bob#0002'')"
proof -
  have a: "\<not> sublist ''appeal'' '':peace: [UNBAN] by Mod#0001 | ID: 42 | Bob#0002''"
    by code_simp
  have b: "\<not> sublist ''no reason'' '':peace: [UNBAN] by Mod#0001 | ID: 42 | Bob#0002''"
    by code_simp
  show ?thesis
    using a b
    by (simp add: renderLogMessage_def eventMessageRenderer_def andThen_def ex_entry_def ex_mod_def
          ex_user_def)
qed

text \<open>
  C9.  With the escape function modelled from the specification, the line of every
  renderer is the bare template filled with the escaped texts: every id, tag, nickname,
  username and reason enters the line only in escaped form.  An escaped text holds no raw
  markdown control character, reads back as the original text, and \<open>*bold*\<close> becomes
  \<open>\*bold\*\<close>.
\<close>

theorem renderers_escape_markdown:
  "renderLogMessage escapeMarkdown name a = renderLogMessage id name (args_texts escapeMarkdown a)
   \<and> \<not> raw_control (escapeMarkdown str)
   \<and> unescapeMarkdown (escapeMarkdown str) = str
   \<and> escapeMarkdown ''*bold*'' = backslash # ''*bold'' @ backslash # ''*''"
proof -
  have "escapeMarkdown ''*bold*'' = backslash # ''*bold'' @ backslash # ''*''"
    by (simp add: escapeMarkdown_def markdown_control_def backslash_def)
  then show ?thesis
    using rendered_escaped no_raw_control unescape_escape by simp
qed

text \<open>A ban of the user whose tag is \<open>*bold*#0003\<close>.\<close>

theorem renderers_escape_markdown_witness:
  "renderLogMessage escapeMarkdown ''ban'' (OfGuildUser (ex_guild False logs_reject) ex_bold)
     = Inr (Some ('':hammer: [BAN] | ID: 43 | '' @ backslash # ''*bold'' @ backslash # ''*#0003''))
   \<and> \<not> raw_control (escapeMarkdown ''*bold*#0003'')
   \<and> unescapeMarkdown (escapeMarkdown ''*bold*#0003'') = ''*bold*#0003''"
proof -
  have "renderLogMessage id ''ban'' (args_texts escapeMarkdown (OfGuildUser (ex_guild False logs_reject) ex_bold))
          = Inr (Some ('':hammer: [BAN] | ID: 43 | '' @ backslash # ''*bold'' @ backslash # ''*#0003''))"
    by (simp add: renderLogMessage_def eventMessageRenderer_def andThen_def user_texts_def ex_bold_def
          escapeMarkdown_def markdown_control_def backslash_def)
  then show ?thesis
    using renderers_escape_markdown [of "''ban''" "OfGuildUser (ex_guild False logs_reject) ex_bold" "''*bold*#0003''"]
    by simp
qed

end
